theory Spec2Isabelle
  imports Complex_Main "HOL-Library.Word"
begin

section \<open>Values of the sketches\<close>

subsection \<open>C floats\<close>

text \<open>
  The sketches only compare floats (\<^verbatim>\<open><\<close>, \<^verbatim>\<open>>=\<close>, \<^verbatim>\<open>>\<close>) and test them with
  \<^verbatim>\<open>isnan\<close>; they never compute with them. A float is therefore a number, one of
  the two infinities, or not-a-number, and a comparison with not-a-number is false, as
  IEEE 754 has it. Both zeros are \<open>Num 0\<close>: they compare equal.
\<close>

datatype cfloat = Num real | PInf | NInf | NaN

fun isnan :: "cfloat \<Rightarrow> bool" where
  "isnan NaN = True"
| "isnan _ = False"

text \<open>\<^verbatim>\<open>a < b\<close>\<close>

fun float_lt :: "cfloat \<Rightarrow> cfloat \<Rightarrow> bool" where
  "float_lt NaN _ = False"
| "float_lt _ NaN = False"
| "float_lt (Num x) (Num y) = (x < y)"
| "float_lt _ NInf = False"
| "float_lt NInf _ = True"
| "float_lt PInf _ = False"
| "float_lt (Num x) PInf = True"

text \<open>\<^verbatim>\<open>a == b\<close>\<close>

fun float_eq :: "cfloat \<Rightarrow> cfloat \<Rightarrow> bool" where
  "float_eq NaN _ = False"
| "float_eq _ NaN = False"
| "float_eq a b = (a = b)"

text \<open>\<^verbatim>\<open>a >= b\<close>\<close>

definition float_ge :: "cfloat \<Rightarrow> cfloat \<Rightarrow> bool" where
  "float_ge a b = (float_lt b a \<or> float_eq a b)"

text \<open>\<^verbatim>\<open>a > b\<close>\<close>

definition float_gt :: "cfloat \<Rightarrow> cfloat \<Rightarrow> bool" where
  "float_gt a b = float_lt b a"

subsection \<open>Sanitizer\<close>

text \<open>
  \<^verbatim>\<open>float safeValue(float value) { return isnan(value) ? 0.0 : value; }\<close>
  (the same in every sketch).
\<close>

definition safeValue :: "cfloat \<Rightarrow> cfloat" where
  "safeValue v = (if isnan v then Num 0 else v)"

section \<open>The device: globals of the sketches and their effects\<close>

text \<open>
  The repository holds several evolutions of one sketch. Their global variables are the
  fields of one record; a sketch that does not declare a variable never reads or writes
  that field. Effects on the outside are logged in the state: \<open>pins\<close> is the sequence of
  \<^verbatim>\<open>digitalWrite\<close> calls, \<open>serial\<close> the lines printed on \<^verbatim>\<open>Serial\<close>, \<open>wifi\<close> the calls
  made to the \<^verbatim>\<open>WiFi\<close> driver, \<open>published\<close> the telemetry handed to the MQTT client and
  \<open>millis\<close> the 32-bit millisecond clock, which \<^verbatim>\<open>delay\<close> advances, and \<open>mac_reads\<close>
  the number of \<^verbatim>\<open>WiFi.macAddress\<close> calls, each a read of the hardware address.
\<close>

datatype level = LOW | HIGH

definition RELAY_PIN :: nat where
  "RELAY_PIN = 5"

definition LED_PIN :: nat where
  "LED_PIN = 2"

definition MQTT_TOPIC_SETTINGS :: string where
  "MQTT_TOPIC_SETTINGS = ''device/settings''"

datatype serial_line =
    UpdatedThreshold cfloat
  | UpdatedReverseRelay bool
  | UpdatedSsid string
  | UpdatedPassword
  | CredentialsUpdated
  | Dot
  | WiFiReconnected
  | WiFiFailed
  | NewThreshold cfloat
  | CannotFetch
  | ThresholdResponse string
  | UpdatedHttpThreshold cfloat
  | InvalidThreshold
  | ErrorFetching int
  | PublishedToMQTT

datatype wifi_call = Disconnect | Begin string string | BeginSaved

record telemetry =
  t_deviceId :: string
  t_temperature :: cfloat
  t_voltage :: cfloat
  t_current :: cfloat
  t_power :: cfloat
  t_relayState :: bool
  t_temperatureThreshold :: cfloat
  t_timestamp :: "32 word"

record device =
  ssid :: string
  password :: string
  temperatureThreshold :: cfloat
  reverseRelay :: bool
  relayState :: bool
  deviceId :: string
  pins :: "(nat \<times> level) list"
  serial :: "serial_line list"
  wifi :: "wifi_call list"
  published :: "telemetry list"
  millis :: "32 word"
  mac_reads :: nat

text \<open>The globals as \<^verbatim>\<open>deployed_website/deployed_website.ino\<close> initialises them.\<close>

definition boot :: device where
  "boot = \<lparr> ssid = ''HANJEE FIBER - SAAD'', password = ''lahore1222'',
            temperatureThreshold = Num 25, reverseRelay = False, relayState = False,
            deviceId = [], pins = [], serial = [], wifi = [], published = [],
            millis = 0, mac_reads = 0 \<rparr>"

definition digitalWrite :: "nat \<Rightarrow> level \<Rightarrow> device \<Rightarrow> device" where
  "digitalWrite pin v s = s\<lparr>pins := pins s @ [(pin, v)]\<rparr>"

definition serial_print :: "serial_line \<Rightarrow> device \<Rightarrow> device" where
  "serial_print l s = s\<lparr>serial := serial s @ [l]\<rparr>"

definition wifi_do :: "wifi_call \<Rightarrow> device \<Rightarrow> device" where
  "wifi_do c s = s\<lparr>wifi := wifi s @ [c]\<rparr>"

definition delay :: "32 word \<Rightarrow> device \<Rightarrow> device" where
  "delay n s = s\<lparr>millis := millis s + n\<rparr>"

text \<open>\<^verbatim>\<open>relayState ? HIGH : LOW\<close>\<close>

definition level_of :: "bool \<Rightarrow> level" where
  "level_of b = (if b then HIGH else LOW)"

subsection \<open>Relay state machine\<close>

text \<open>
  \<^verbatim>\<open>updateRelayState\<close> of \<^verbatim>\<open>deployed_website/deployed_website.ino\<close> and of the
  WiFiManager sketch (the two are the same text).
\<close>

definition shouldRelayBeOn :: "device \<Rightarrow> cfloat \<Rightarrow> bool" where
  "shouldRelayBeOn s temperature =
     (if reverseRelay s then float_lt temperature (temperatureThreshold s)
      else float_ge temperature (temperatureThreshold s))"

definition updateRelayState :: "cfloat \<Rightarrow> device \<Rightarrow> device" where
  "updateRelayState temperature s =
     (if shouldRelayBeOn s temperature \<noteq> relayState s
      then (let s1 = s\<lparr>relayState := shouldRelayBeOn s temperature\<rparr>;
                s2 = digitalWrite RELAY_PIN (level_of (relayState s1)) s1
            in digitalWrite LED_PIN (level_of (relayState s2)) s2)
      else s)"

text \<open>
  \<^verbatim>\<open>updateRelayState\<close> of the first MQTT sketch (topic \<^verbatim>\<open>device/threshold\<close>), which has
  no \<^verbatim>\<open>reverseRelay\<close>: off at or above the threshold, on below it.
\<close>

definition updateRelayState_legacy :: "cfloat \<Rightarrow> device \<Rightarrow> device" where
  "updateRelayState_legacy temperature s =
     (if float_ge temperature (temperatureThreshold s) \<and> relayState s
      then (digitalWrite LED_PIN LOW (digitalWrite RELAY_PIN LOW s))\<lparr>relayState := False\<rparr>
      else if float_lt temperature (temperatureThreshold s) \<and> \<not> relayState s
      then (digitalWrite LED_PIN HIGH (digitalWrite RELAY_PIN HIGH s))\<lparr>relayState := True\<rparr>
      else s)"

subsection \<open>Device identity\<close>

text \<open>
  \<^verbatim>\<open>WiFi.macAddress(mac)\<close> fills six bytes; what it reads is an input of each call.
  \<^verbatim>\<open>snprintf(macStr, 18, "%02X:%02X:%02X:%02X:%02X:%02X", ...)\<close> writes seventeen
  characters.
\<close>

datatype mac = MAC "8 word" "8 word" "8 word" "8 word" "8 word" "8 word"

definition hex_digit :: "nat \<Rightarrow> char" where
  "hex_digit n = ''0123456789ABCDEF'' ! (n mod 16)"

definition hex2 :: "8 word \<Rightarrow> string" where
  "hex2 b = [hex_digit (unat b div 16), hex_digit (unat b mod 16)]"

fun format_mac :: "mac \<Rightarrow> string" where
  "format_mac (MAC a b c d e f) =
     hex2 a @ '':'' @ hex2 b @ '':'' @ hex2 c @ '':'' @ hex2 d @ '':'' @ hex2 e @ '':'' @ hex2 f"

text \<open>\<^verbatim>\<open>WiFi.macAddress(mac)\<close>: one more read of the hardware; the bytes it yields are the
  argument \<open>m\<close> of the calling function.\<close>

definition macAddress :: "device \<Rightarrow> device" where
  "macAddress s = s\<lparr>mac_reads := mac_reads s + 1\<rparr>"


text \<open>
  The MQTT sketches keep the string in the global \<^verbatim>\<open>deviceId\<close> and derive it only while
  that is empty.
\<close>

definition getMACAddress :: "mac \<Rightarrow> device \<Rightarrow> string \<times> device" where
  "getMACAddress m s =
     (if length (deviceId s) = 0
      then (let s0 = macAddress s;
                s1 = s0\<lparr>deviceId := format_mac m\<rparr>
            in (deviceId s1, s1))
      else (deviceId s, s))"

text \<open>
  The WiFiManager sketch first makes sure the WiFi driver is started: when the link is
  down it calls \<^verbatim>\<open>WiFi.begin()\<close> and polls every 100 ms, for at most ten seconds.
  \<open>link_up t\<close> is what \<^verbatim>\<open>WiFi.status() == WL_CONNECTED\<close> yields when the clock reads \<open>t\<close>;
  \<^verbatim>\<open>millis() - startAttemptTime\<close> is unsigned 32-bit arithmetic.
\<close>

function mac_wait :: "(32 word \<Rightarrow> bool) \<Rightarrow> 32 word \<Rightarrow> device \<Rightarrow> device" where
  "mac_wait link_up startAttemptTime s =
     (if \<not> link_up (millis s) \<and> millis s - startAttemptTime < 10000
      then mac_wait link_up startAttemptTime (delay 100 s)
      else s)"
  by pat_completeness auto
termination
proof (relation "measure (\<lambda>(link_up, startAttemptTime, s). 10000 - unat (millis s - startAttemptTime))")
  show "wf (measure (\<lambda>(link_up, startAttemptTime, s). 10000 - unat (millis s - startAttemptTime)))"
    by simp
next
  fix link_up :: "32 word \<Rightarrow> bool" and startAttemptTime :: "32 word" and s :: device
  assume "\<not> link_up (millis s) \<and> millis s - startAttemptTime < 10000"
  then have less: "millis s - startAttemptTime < 10000" by simp
  define x where "x = millis s - startAttemptTime"
  have a: "millis s + 100 - startAttemptTime = x + 100" by (simp add: x_def)
  from less have b: "unat x < 10000" by (simp add: word_less_nat_alt x_def)
  then have c: "unat (x + 100) = unat x + 100" by (simp add: unat_word_ariths)
  have "10000 - unat (millis s + 100 - startAttemptTime) < 10000 - unat x"
    unfolding a c using b by arith
  then show "((link_up, startAttemptTime, delay 100 s), (link_up, startAttemptTime, s))
      \<in> measure (\<lambda>(link_up, startAttemptTime, s). 10000 - unat (millis s - startAttemptTime))"
    by (simp add: delay_def x_def)
qed

declare mac_wait.simps [simp del]

definition getMACAddress_wm :: "mac \<Rightarrow> (32 word \<Rightarrow> bool) \<Rightarrow> device \<Rightarrow> string \<times> device" where
  "getMACAddress_wm m link_up s =
     (if length (deviceId s) = 0
      then (let s1 = (if \<not> link_up (millis s)
                      then (let s0 = wifi_do BeginSaved s in mac_wait link_up (millis s0) s0)
                      else s);
                s2 = (macAddress s1)\<lparr>deviceId := format_mac m\<rparr>
            in (deviceId s2, s2))
      else (deviceId s, s))"

subsection \<open>Inbound configuration\<close>

text \<open>
  ArduinoJson is a library, not part of the repository, so \<^verbatim>\<open>deserializeJson\<close> is a
  parameter of the callbacks: it yields \<open>None\<close> for a \<^verbatim>\<open>DeserializationError\<close>, and
  otherwise what the sketches read from the document. \<open>doc_deviceId\<close> is
  \<^verbatim>\<open>doc["deviceId"]\<close> as a \<^verbatim>\<open>const char*\<close> (\<open>None\<close> for the null pointer); each other field
  is \<open>None\<close> when \<^verbatim>\<open>doc.containsKey\<close> is false and otherwise the value \<^verbatim>\<open>doc[key]\<close>
  converts to.
\<close>

record JsonDocument =
  doc_deviceId :: "string option"
  doc_threshold :: "cfloat option"
  doc_reverseRelay :: "bool option"
  doc_ssid :: "string option"
  doc_password :: "string option"

text \<open>\<^verbatim>\<open>strlcpy(dst, src, n)\<close>: at most \<open>n - 1\<close> characters and the terminator.\<close>

definition strlcpy :: "string \<Rightarrow> nat \<Rightarrow> string" where
  "strlcpy src n = take (n - 1) src"

text \<open>
  The wait of the credential hot swap in \<^verbatim>\<open>deployed_website/deployed_website.ino\<close>:
  poll every 500 ms and print a dot, for at most ten seconds. The clock advances by the
  argument of each \<^verbatim>\<open>delay\<close>; the time the other statements take is not counted.
\<close>

function wifi_wait :: "(32 word \<Rightarrow> bool) \<Rightarrow> 32 word \<Rightarrow> device \<Rightarrow> device" where
  "wifi_wait link_up startAttemptTime s =
     (if \<not> link_up (millis s) \<and> millis s - startAttemptTime < 10000
      then wifi_wait link_up startAttemptTime (serial_print Dot (delay 500 s))
      else s)"
  by pat_completeness auto
termination
proof (relation "measure (\<lambda>(link_up, startAttemptTime, s). 10000 - unat (millis s - startAttemptTime))")
  show "wf (measure (\<lambda>(link_up, startAttemptTime, s). 10000 - unat (millis s - startAttemptTime)))"
    by simp
next
  fix link_up :: "32 word \<Rightarrow> bool" and startAttemptTime :: "32 word" and s :: device
  assume "\<not> link_up (millis s) \<and> millis s - startAttemptTime < 10000"
  then have less: "millis s - startAttemptTime < 10000" by simp
  define x where "x = millis s - startAttemptTime"
  have a: "millis s + 500 - startAttemptTime = x + 500" by (simp add: x_def)
  from less have b: "unat x < 10000" by (simp add: word_less_nat_alt x_def)
  then have c: "unat (x + 500) = unat x + 500" by (simp add: unat_word_ariths)
  have "10000 - unat (millis s + 500 - startAttemptTime) < 10000 - unat x"
    unfolding a c using b by arith
  then show "((link_up, startAttemptTime, serial_print Dot (delay 500 s)), (link_up, startAttemptTime, s))
      \<in> measure (\<lambda>(link_up, startAttemptTime, s). 10000 - unat (millis s - startAttemptTime))"
    by (simp add: delay_def serial_print_def x_def)
qed

declare wifi_wait.simps [simp del]

text \<open>The block under \<^verbatim>\<open>if (wifiCredentialsUpdated)\<close>.\<close>

definition reconnectWiFi :: "(32 word \<Rightarrow> bool) \<Rightarrow> device \<Rightarrow> device" where
  "reconnectWiFi link_up s =
     (let s1 = serial_print CredentialsUpdated s;
          s2 = wifi_do Disconnect s1;
          s3 = wifi_do (Begin (ssid s2) (password s2)) s2;
          startAttemptTime = millis s3;
          s4 = wifi_wait link_up startAttemptTime s3
      in if link_up (millis s4) then serial_print WiFiReconnected s4
         else serial_print WiFiFailed s4)"

text \<open>The block under \<^verbatim>\<open>if (strcmp(topic, MQTT_TOPIC_SETTINGS) == 0)\<close>; \<open>u\<close> is
  \<^verbatim>\<open>wifiCredentialsUpdated\<close>.\<close>

definition apply_settings :: "JsonDocument \<Rightarrow> (32 word \<Rightarrow> bool) \<Rightarrow> device \<Rightarrow> device" where
  "apply_settings doc link_up s0 =
     (let s1 = (case doc_threshold doc of
                  None \<Rightarrow> s0
                | Some v \<Rightarrow> serial_print (UpdatedThreshold v) (s0\<lparr>temperatureThreshold := v\<rparr>));
          s2 = (case doc_reverseRelay doc of
                  None \<Rightarrow> s1
                | Some b \<Rightarrow> serial_print (UpdatedReverseRelay b) (s1\<lparr>reverseRelay := b\<rparr>));
          (u3, s3) = (case doc_ssid doc of
                  None \<Rightarrow> (False, s2)
                | Some newSsid \<Rightarrow>
                    if newSsid \<noteq> ssid s2
                    then (True, serial_print (UpdatedSsid (strlcpy newSsid 32))
                                  (s2\<lparr>ssid := strlcpy newSsid 32\<rparr>))
                    else (False, s2));
          (u4, s4) = (case doc_password doc of
                  None \<Rightarrow> (u3, s3)
                | Some newPassword \<Rightarrow>
                    if newPassword \<noteq> password s3
                    then (True, serial_print UpdatedPassword
                                  (s3\<lparr>password := strlcpy newPassword 32\<rparr>))
                    else (u3, s3))
      in if u4 then reconnectWiFi link_up s4 else s4)"

text \<open>\<^verbatim>\<open>callback\<close> of \<^verbatim>\<open>deployed_website/deployed_website.ino\<close>.\<close>

definition callback ::
  "(string \<Rightarrow> JsonDocument option) \<Rightarrow> mac \<Rightarrow> (32 word \<Rightarrow> bool) \<Rightarrow> string \<Rightarrow> string \<Rightarrow> device \<Rightarrow> device" where
  "callback deserializeJson m link_up topic message s =
     (case deserializeJson message of
        None \<Rightarrow> s
      | Some doc \<Rightarrow>
          (case doc_deviceId doc of
             None \<Rightarrow> s
           | Some targetDeviceId \<Rightarrow>
               (case getMACAddress m s of
                  (myId, s0) \<Rightarrow>
                    if targetDeviceId = myId
                    then (if topic = MQTT_TOPIC_SETTINGS then apply_settings doc link_up s0 else s0)
                    else s0)))"

text \<open>\<^verbatim>\<open>callback\<close> of the WiFiManager sketch: threshold and polarity only.\<close>

definition apply_settings_wm :: "JsonDocument \<Rightarrow> device \<Rightarrow> device" where
  "apply_settings_wm doc s0 =
     (let s1 = (case doc_threshold doc of
                  None \<Rightarrow> s0
                | Some v \<Rightarrow> serial_print (UpdatedThreshold v) (s0\<lparr>temperatureThreshold := v\<rparr>))
      in (case doc_reverseRelay doc of
            None \<Rightarrow> s1
          | Some b \<Rightarrow> serial_print (UpdatedReverseRelay b) (s1\<lparr>reverseRelay := b\<rparr>)))"

definition callback_wm ::
  "(string \<Rightarrow> JsonDocument option) \<Rightarrow> mac \<Rightarrow> (32 word \<Rightarrow> bool) \<Rightarrow> string \<Rightarrow> string \<Rightarrow> device \<Rightarrow> device" where
  "callback_wm deserializeJson m link_up topic message s =
     (case deserializeJson message of
        None \<Rightarrow> s
      | Some doc \<Rightarrow>
          (case doc_deviceId doc of
             None \<Rightarrow> s
           | Some targetDeviceId \<Rightarrow>
               (case getMACAddress_wm m link_up s of
                  (myId, s0) \<Rightarrow>
                    if targetDeviceId = myId
                    then (if topic = MQTT_TOPIC_SETTINGS then apply_settings_wm doc s0 else s0)
                    else s0)))"

text \<open>
  \<^verbatim>\<open>callback\<close> of the first MQTT sketch (topic \<^verbatim>\<open>device/threshold\<close>). It does not look at
  the topic, and after a new threshold it reads the sensor (\<open>currentTemp\<close>) and updates
  the relay at once.
\<close>

definition callback_legacy ::
  "(string \<Rightarrow> JsonDocument option) \<Rightarrow> mac \<Rightarrow> cfloat \<Rightarrow> string \<Rightarrow> string \<Rightarrow> device \<Rightarrow> device" where
  "callback_legacy deserializeJson m currentTemp topic message s =
     (case deserializeJson message of
        None \<Rightarrow> s
      | Some doc \<Rightarrow>
          (case doc_deviceId doc of
             None \<Rightarrow> s
           | Some targetDeviceId \<Rightarrow>
               (case getMACAddress m s of
                  (myId, s0) \<Rightarrow>
                    if targetDeviceId = myId
                    then (case doc_threshold doc of
                            None \<Rightarrow> s0
                          | Some v \<Rightarrow>
                              updateRelayState_legacy currentTemp
                                (serial_print (NewThreshold v) (s0\<lparr>temperatureThreshold := v\<rparr>)))
                    else s0)))"

text \<open>
  \<^verbatim>\<open>fetchThresholdValue\<close> of the HTTP sketch. \<open>wifi_connected\<close> is
  \<^verbatim>\<open>WiFi.status() == WL_CONNECTED\<close>, \<open>httpResponseCode\<close> and \<open>response\<close> are what
  \<^verbatim>\<open>http.GET()\<close> and \<^verbatim>\<open>http.getString()\<close> return, and \<open>toFloat\<close> is \<^verbatim>\<open>String::toFloat\<close>
  of the Arduino core.
\<close>

definition fetchThresholdValue ::
  "(string \<Rightarrow> cfloat) \<Rightarrow> bool \<Rightarrow> int \<Rightarrow> string \<Rightarrow> device \<Rightarrow> device" where
  "fetchThresholdValue toFloat wifi_connected httpResponseCode response s =
     (if \<not> wifi_connected then serial_print CannotFetch s
      else if httpResponseCode > 0
      then (let s1 = serial_print (ThresholdResponse response) s;
                newThreshold = toFloat response
            in if float_gt newThreshold (Num 0)
               then serial_print (UpdatedHttpThreshold newThreshold)
                      (s1\<lparr>temperatureThreshold := newThreshold\<rparr>)
               else serial_print InvalidThreshold s1)
      else serial_print (ErrorFetching httpResponseCode) s)"

subsection \<open>The cycle of the WiFiManager sketch\<close>





text \<open>
  The value of \<^verbatim>\<open>wifiCredentialsUpdated\<close> after the two credential blocks of the callback,
  as a function of the document and the state before them.
\<close>

definition wifiCredentialsUpdated :: "JsonDocument \<Rightarrow> device \<Rightarrow> bool" where
  "wifiCredentialsUpdated doc s =
     ((case doc_ssid doc of None \<Rightarrow> False | Some newSsid \<Rightarrow> newSsid \<noteq> ssid s)
      \<or> (case doc_password doc of None \<Rightarrow> False | Some newPassword \<Rightarrow> newPassword \<noteq> password s))"

subsection \<open>Runs of a sketch after setup\<close>

text \<open>
  \<^verbatim>\<open>publishSensorData\<close> of \<^verbatim>\<open>deployed_website/deployed_website.ino\<close>, on the path where
  \<^verbatim>\<open>client.connected()\<close> holds.
\<close>

definition publishSensorData_deployed ::
  "mac \<Rightarrow> cfloat \<Rightarrow> cfloat \<Rightarrow> cfloat \<Rightarrow> cfloat \<Rightarrow> device \<Rightarrow> device" where
  "publishSensorData_deployed m tempC voltage current pwr s =
     (case getMACAddress m s of
        (myId, s1) \<Rightarrow>
          serial_print PublishedToMQTT
            (s1\<lparr>published := published s1 @
                  [\<lparr> t_deviceId = myId, t_temperature = safeValue tempC,
                     t_voltage = safeValue voltage, t_current = safeValue current,
                     t_power = safeValue pwr, t_relayState = relayState s1,
                     t_temperatureThreshold = temperatureThreshold s1,
                     t_timestamp = millis s1 \<rparr>]\<rparr>))"

text \<open>
  After \<^verbatim>\<open>setup\<close> a sketch only runs \<^verbatim>\<open>loop\<close>, and inside it \<^verbatim>\<open>reconnectMQTT\<close>. What
  these do to the state is a sequence of the following steps, in an order and with inputs
  that the broker, the link and the sensors decide: \<^verbatim>\<open>client.loop()\<close> hands a message to
  the callback; \<^verbatim>\<open>reconnectMQTT\<close> asks for the identity to build the client id; \<^verbatim>\<open>loop\<close>
  evaluates the relay; both publish; both \<^verbatim>\<open>delay\<close>. Each step carries its inputs; the
  address is what the hardware reads during that step. (\<^verbatim>\<open>wifiManager.autoConnect\<close>, which
  the WiFiManager sketch calls while the link is down, belongs to a library and writes
  none of the globals.)
\<close>

datatype step =
    Service mac string string
  | Identify mac
  | Relay cfloat
  | Publish mac cfloat cfloat cfloat cfloat
  | Pause "32 word"

fun deployed_step ::
  "(string \<Rightarrow> JsonDocument option) \<Rightarrow> (32 word \<Rightarrow> bool) \<Rightarrow> step \<Rightarrow> device \<Rightarrow> device" where
  "deployed_step deserializeJson link_up (Service m topic message) s =
     callback deserializeJson m link_up topic message s"
| "deployed_step deserializeJson link_up (Identify m) s = snd (getMACAddress m s)"
| "deployed_step deserializeJson link_up (Relay temperature) s = updateRelayState temperature s"
| "deployed_step deserializeJson link_up (Publish m tempC voltage current pwr) s =
     publishSensorData_deployed m tempC voltage current pwr s"
| "deployed_step deserializeJson link_up (Pause n) s = delay n s"


fun run :: "(step \<Rightarrow> device \<Rightarrow> device) \<Rightarrow> step list \<Rightarrow> device \<Rightarrow> device" where
  "run f [] s = s"
| "run f (x # xs) s = run f xs (f x s)"

text \<open>
  A step that brings no other credentials than \<open>a\<close> and \<open>b\<close>: any step but a message, a
  message that does not parse, and a message whose SSID and password are absent or
  equal to \<open>a\<close> and \<open>b\<close>.
\<close>

fun same_credentials ::
  "(string \<Rightarrow> JsonDocument option) \<Rightarrow> string \<Rightarrow> string \<Rightarrow> step \<Rightarrow> bool" where
  "same_credentials deserializeJson a b (Service m topic message) =
     (case deserializeJson message of
        None \<Rightarrow> True
      | Some doc \<Rightarrow>
          (doc_ssid doc = None \<or> doc_ssid doc = Some a)
          \<and> (doc_password doc = None \<or> doc_password doc = Some b))"
| "same_credentials deserializeJson a b other = True"

subsection \<open>Example inputs\<close>

text \<open>
  The unit of the specification's scenario 4, whose identity is \<^verbatim>\<open>AA:BB:CC:DD:EE:FF\<close>; a
  parser under which every payload reads as one given document; a link that is always
  up and one that never comes up.
\<close>

definition unit_mac :: mac where
  "unit_mac = MAC 0xAA 0xBB 0xCC 0xDD 0xEE 0xFF"

definition reads_as ::
  "string \<Rightarrow> cfloat option \<Rightarrow> string option \<Rightarrow> string option \<Rightarrow> string \<Rightarrow> JsonDocument option" where
  "reads_as target th newSsid newPassword message =
     Some \<lparr> doc_deviceId = Some target, doc_threshold = th, doc_reverseRelay = None,
            doc_ssid = newSsid, doc_password = newPassword \<rparr>"

definition always_up :: "32 word \<Rightarrow> bool" where
  "always_up t = True"

definition never_up :: "32 word \<Rightarrow> bool" where
  "never_up t = False"

section \<open>What the operations leave alone\<close>

lemma length_format_mac: "length (format_mac m) = 17"
  by (cases m) (simp add: hex2_def)

lemma format_mac_nonempty [simp]: "format_mac m \<noteq> []"
  using length_format_mac [of m] by auto

lemma unit_mac_id: "format_mac unit_mac = ''AA:BB:CC:DD:EE:FF''"
  by (simp add: unit_mac_def hex2_def hex_digit_def)

lemma float_ge_of_eq: "float_eq t th \<Longrightarrow> float_ge t th"
  by (simp add: float_ge_def)

lemma float_ge_iff_not_lt: "\<not> isnan a \<Longrightarrow> \<not> isnan b \<Longrightarrow> float_ge a b = (\<not> float_lt a b)"
  by (cases a; cases b) (auto simp: float_ge_def)

lemma relayState_updateRelayState:
  "relayState (updateRelayState t s) = shouldRelayBeOn s t"
  by (simp add: updateRelayState_def digitalWrite_def Let_def)

lemma pins_updateRelayState:
  "pins (updateRelayState t s) =
     pins s @ (if shouldRelayBeOn s t \<noteq> relayState s
               then [(RELAY_PIN, level_of (shouldRelayBeOn s t)),
                     (LED_PIN, level_of (shouldRelayBeOn s t))]
               else [])"
  by (simp add: updateRelayState_def digitalWrite_def Let_def)

lemma shouldRelayBeOn_updateRelayState:
  "shouldRelayBeOn (updateRelayState t' s) t = shouldRelayBeOn s t"
  by (simp add: updateRelayState_def shouldRelayBeOn_def digitalWrite_def Let_def)

text \<open>The two waits only move the clock (and print dots).\<close>

lemma wifi_wait_frame_ex:
  "\<exists>se ms. wifi_wait l st s = s\<lparr>serial := se, millis := ms\<rparr>"
proof (induction l st s rule: wifi_wait.induct)
  case (1 l st s)
  show ?case
  proof (cases "\<not> l (millis s) \<and> millis s - st < 10000")
    case True
    then have eq: "wifi_wait l st s = wifi_wait l st (serial_print Dot (delay 500 s))"
      by (subst wifi_wait.simps) simp
    from 1 [OF True] obtain se ms where
      "wifi_wait l st (serial_print Dot (delay 500 s)) =
         (serial_print Dot (delay 500 s))\<lparr>serial := se, millis := ms\<rparr>"
      by blast
    then have "wifi_wait l st s = s\<lparr>serial := se, millis := ms\<rparr>"
      unfolding eq by (simp add: serial_print_def delay_def)
    then show ?thesis by blast
  next
    case False
    then have "wifi_wait l st s = s" by (subst wifi_wait.simps) auto
    then have "wifi_wait l st s = s\<lparr>serial := serial s, millis := millis s\<rparr>" by simp
    then show ?thesis by blast
  qed
qed

lemma mac_wait_frame_ex:
  "\<exists>ms. mac_wait l st s = s\<lparr>millis := ms\<rparr>"
proof (induction l st s rule: mac_wait.induct)
  case (1 l st s)
  show ?case
  proof (cases "\<not> l (millis s) \<and> millis s - st < 10000")
    case True
    then have eq: "mac_wait l st s = mac_wait l st (delay 100 s)"
      by (subst mac_wait.simps) simp
    from 1 [OF True] obtain ms where
      "mac_wait l st (delay 100 s) = (delay 100 s)\<lparr>millis := ms\<rparr>"
      by blast
    then have "mac_wait l st s = s\<lparr>millis := ms\<rparr>"
      unfolding eq by (simp add: delay_def)
    then show ?thesis by blast
  next
    case False
    then have "mac_wait l st s = s" by (subst mac_wait.simps) auto
    then have "mac_wait l st s = s\<lparr>millis := millis s\<rparr>" by simp
    then show ?thesis by blast
  qed
qed

lemma wifi_wait_fields [simp]:
  "ssid (wifi_wait l st s) = ssid s"
  "password (wifi_wait l st s) = password s"
  "temperatureThreshold (wifi_wait l st s) = temperatureThreshold s"
  "reverseRelay (wifi_wait l st s) = reverseRelay s"
  "relayState (wifi_wait l st s) = relayState s"
  "deviceId (wifi_wait l st s) = deviceId s"
  "pins (wifi_wait l st s) = pins s"
  "wifi (wifi_wait l st s) = wifi s"
  "published (wifi_wait l st s) = published s"
proof -
  obtain se ms where e: "wifi_wait l st s = s\<lparr>serial := se, millis := ms\<rparr>"
    using wifi_wait_frame_ex by blast
  show "ssid (wifi_wait l st s) = ssid s"
    and "password (wifi_wait l st s) = password s"
    and "temperatureThreshold (wifi_wait l st s) = temperatureThreshold s"
    and "reverseRelay (wifi_wait l st s) = reverseRelay s"
    and "relayState (wifi_wait l st s) = relayState s"
    and "deviceId (wifi_wait l st s) = deviceId s"
    and "pins (wifi_wait l st s) = pins s"
    and "wifi (wifi_wait l st s) = wifi s"
    and "published (wifi_wait l st s) = published s"
    by (simp_all add: e)
qed

lemma mac_wait_fields [simp]:
  "ssid (mac_wait l st s) = ssid s"
  "password (mac_wait l st s) = password s"
  "temperatureThreshold (mac_wait l st s) = temperatureThreshold s"
  "reverseRelay (mac_wait l st s) = reverseRelay s"
  "relayState (mac_wait l st s) = relayState s"
  "deviceId (mac_wait l st s) = deviceId s"
  "pins (mac_wait l st s) = pins s"
  "serial (mac_wait l st s) = serial s"
  "wifi (mac_wait l st s) = wifi s"
  "published (mac_wait l st s) = published s"
proof -
  obtain ms where e: "mac_wait l st s = s\<lparr>millis := ms\<rparr>"
    using mac_wait_frame_ex by blast
  show "ssid (mac_wait l st s) = ssid s"
    and "password (mac_wait l st s) = password s"
    and "temperatureThreshold (mac_wait l st s) = temperatureThreshold s"
    and "reverseRelay (mac_wait l st s) = reverseRelay s"
    and "relayState (mac_wait l st s) = relayState s"
    and "deviceId (mac_wait l st s) = deviceId s"
    and "pins (mac_wait l st s) = pins s"
    and "serial (mac_wait l st s) = serial s"
    and "wifi (mac_wait l st s) = wifi s"
    and "published (mac_wait l st s) = published s"
    by (simp_all add: e)
qed

text \<open>
  When the link is down at each of the twenty-one polls, half a second apart, the wait of
  the hot swap ends by its timeout, ten seconds after it began.
\<close>

lemma poll_elapsed:
  assumes "j \<le> 20"
  shows "(500 * of_nat j < (10000 :: 32 word)) = (j < 20)"
proof -
  have "unat (500 * of_nat j :: 32 word) = 500 * j"
    using assms by (simp add: unat_word_ariths unat_of_nat)
  then show ?thesis by (simp add: word_less_nat_alt)
qed

lemma wifi_wait_timeout_from:
  assumes "j \<le> 20"
    and "millis s = st + 500 * of_nat j"
    and "\<forall>k. j \<le> k \<and> k \<le> 20 \<longrightarrow> \<not> link_up (st + 500 * of_nat k)"
  shows "millis (wifi_wait link_up st s) = st + 10000"
  using assms
proof (induction "20 - j" arbitrary: j s)
  case 0
  then have j: "j = 20" by simp
  with 0 have "wifi_wait link_up st s = s"
    by (subst wifi_wait.simps) (simp add: poll_elapsed)
  with 0 j show ?case by simp
next
  case (Suc n)
  then have j: "j < 20" by simp
  with Suc.prems have cond: "\<not> link_up (millis s) \<and> millis s - st < 10000"
    by (simp add: poll_elapsed)
  then have eq: "wifi_wait link_up st s = wifi_wait link_up st (serial_print Dot (delay 500 s))"
    by (subst wifi_wait.simps) simp
  have "millis (wifi_wait link_up st (serial_print Dot (delay 500 s))) = st + 10000"
  proof (rule Suc.hyps(1) [of "Suc j"])
    show "n = 20 - Suc j" using Suc.hyps(2) by simp
    show "Suc j \<le> 20" using j by simp
    show "millis (serial_print Dot (delay 500 s)) = st + 500 * of_nat (Suc j)"
      using Suc.prems(2) by (simp add: serial_print_def delay_def)
    show "\<forall>k. Suc j \<le> k \<and> k \<le> 20 \<longrightarrow> \<not> link_up (st + 500 * of_nat k)"
      using Suc.prems(3) by simp
  qed
  with eq show ?case by simp
qed

lemma wifi_wait_timeout:
  assumes "\<forall>k\<le>20. \<not> link_up (millis s + 500 * of_nat k)"
  shows "millis (wifi_wait link_up (millis s) s) = millis s + 10000"
  using wifi_wait_timeout_from [of 0 s "millis s" link_up] assms by simp

lemma reconnectWiFi_fields [simp]:
  "ssid (reconnectWiFi l s) = ssid s"
  "password (reconnectWiFi l s) = password s"
  "temperatureThreshold (reconnectWiFi l s) = temperatureThreshold s"
  "reverseRelay (reconnectWiFi l s) = reverseRelay s"
  "relayState (reconnectWiFi l s) = relayState s"
  "deviceId (reconnectWiFi l s) = deviceId s"
  "pins (reconnectWiFi l s) = pins s"
  "published (reconnectWiFi l s) = published s"
  "wifi (reconnectWiFi l s) = wifi s @ [Disconnect, Begin (ssid s) (password s)]"
  by (simp_all add: reconnectWiFi_def Let_def serial_print_def wifi_do_def)

lemma reconnectWiFi_timeout:
  assumes "\<forall>k\<le>20. \<not> l (millis s + 500 * of_nat k)"
  shows "millis (reconnectWiFi l s) = millis s + 10000"
    and "last (serial (reconnectWiFi l s)) = WiFiFailed"
proof -
  let ?s3 = "wifi_do (Begin (ssid s) (password s))
               (wifi_do Disconnect (serial_print CredentialsUpdated s))"
  have m3: "millis ?s3 = millis s" by (simp add: wifi_do_def serial_print_def)
  have w: "millis (wifi_wait l (millis ?s3) ?s3) = millis ?s3 + 10000"
    by (rule wifi_wait_timeout) (use assms m3 in simp)
  have "\<not> l (millis s + 500 * of_nat (20::nat))" using assms by blast
  then have d: "\<not> l (millis s + 10000)" by simp
  have r: "reconnectWiFi l s =
      (if l (millis (wifi_wait l (millis ?s3) ?s3))
       then serial_print WiFiReconnected (wifi_wait l (millis ?s3) ?s3)
       else serial_print WiFiFailed (wifi_wait l (millis ?s3) ?s3))"
    by (simp add: reconnectWiFi_def Let_def wifi_do_def serial_print_def)
  from w m3 d show "millis (reconnectWiFi l s) = millis s + 10000"
    unfolding r by (simp add: serial_print_def)
  from w m3 d show "last (serial (reconnectWiFi l s)) = WiFiFailed"
    unfolding r by (simp add: serial_print_def)
qed

text \<open>Deriving the identity touches the cache only (and, in the WiFiManager sketch, the
  driver and the clock).\<close>

lemma getMACAddress_fields [simp]:
  "ssid (snd (getMACAddress m s)) = ssid s"
  "password (snd (getMACAddress m s)) = password s"
  "temperatureThreshold (snd (getMACAddress m s)) = temperatureThreshold s"
  "reverseRelay (snd (getMACAddress m s)) = reverseRelay s"
  "relayState (snd (getMACAddress m s)) = relayState s"
  "pins (snd (getMACAddress m s)) = pins s"
  "serial (snd (getMACAddress m s)) = serial s"
  "wifi (snd (getMACAddress m s)) = wifi s"
  "published (snd (getMACAddress m s)) = published s"
  "millis (snd (getMACAddress m s)) = millis s"
  "deviceId (snd (getMACAddress m s)) = fst (getMACAddress m s)"
  by (simp_all add: getMACAddress_def macAddress_def Let_def)

lemma getMACAddress_wm_fields [simp]:
  "ssid (snd (getMACAddress_wm m l s)) = ssid s"
  "password (snd (getMACAddress_wm m l s)) = password s"
  "temperatureThreshold (snd (getMACAddress_wm m l s)) = temperatureThreshold s"
  "reverseRelay (snd (getMACAddress_wm m l s)) = reverseRelay s"
  "relayState (snd (getMACAddress_wm m l s)) = relayState s"
  "pins (snd (getMACAddress_wm m l s)) = pins s"
  "serial (snd (getMACAddress_wm m l s)) = serial s"
  "published (snd (getMACAddress_wm m l s)) = published s"
  "deviceId (snd (getMACAddress_wm m l s)) = fst (getMACAddress_wm m l s)"
  by (simp_all add: getMACAddress_wm_def macAddress_def Let_def wifi_do_def)

text \<open>What the settings blocks write.\<close>

lemma apply_settings_fields:
  "temperatureThreshold (apply_settings doc l s) =
     (case doc_threshold doc of None \<Rightarrow> temperatureThreshold s | Some v \<Rightarrow> v)"
  "reverseRelay (apply_settings doc l s) =
     (case doc_reverseRelay doc of None \<Rightarrow> reverseRelay s | Some b \<Rightarrow> b)"
  "ssid (apply_settings doc l s) =
     (case doc_ssid doc of None \<Rightarrow> ssid s
      | Some n \<Rightarrow> if n \<noteq> ssid s then strlcpy n 32 else ssid s)"
  "password (apply_settings doc l s) =
     (case doc_password doc of None \<Rightarrow> password s
      | Some p \<Rightarrow> if p \<noteq> password s then strlcpy p 32 else password s)"
  "relayState (apply_settings doc l s) = relayState s"
  "pins (apply_settings doc l s) = pins s"
  "deviceId (apply_settings doc l s) = deviceId s"
  "published (apply_settings doc l s) = published s"
  by (simp_all add: apply_settings_def Let_def serial_print_def split: option.splits)

lemma apply_settings_wm_fields:
  "temperatureThreshold (apply_settings_wm doc s) =
     (case doc_threshold doc of None \<Rightarrow> temperatureThreshold s | Some v \<Rightarrow> v)"
  "reverseRelay (apply_settings_wm doc s) =
     (case doc_reverseRelay doc of None \<Rightarrow> reverseRelay s | Some b \<Rightarrow> b)"
  "ssid (apply_settings_wm doc s) = ssid s"
  "password (apply_settings_wm doc s) = password s"
  "relayState (apply_settings_wm doc s) = relayState s"
  "pins (apply_settings_wm doc s) = pins s"
  "wifi (apply_settings_wm doc s) = wifi s"
  "deviceId (apply_settings_wm doc s) = deviceId s"
  "published (apply_settings_wm doc s) = published s"
  by (simp_all add: apply_settings_wm_def Let_def serial_print_def split: option.splits)

lemma apply_settings_quiet:
  assumes "\<not> wifiCredentialsUpdated doc s"
  shows "wifi (apply_settings doc l s) = wifi s"
    and "millis (apply_settings doc l s) = millis s"
  using assms
  by (simp_all add: apply_settings_def wifiCredentialsUpdated_def Let_def serial_print_def
      split: option.splits)

lemma apply_settings_swap:
  assumes "wifiCredentialsUpdated doc s"
  shows "\<exists>s4. apply_settings doc l s = reconnectWiFi l s4 \<and> millis s4 = millis s
           \<and> wifi s4 = wifi s"
  using assms
  by (auto simp: apply_settings_def wifiCredentialsUpdated_def Let_def serial_print_def
      split: option.splits)

text \<open>The callbacks on an addressed message, and on one they discard.\<close>

lemma callback_addressed:
  assumes "deserializeJson message = Some doc"
    and "doc_deviceId doc = Some (fst (getMACAddress m s))"
  shows "callback deserializeJson m link_up topic message s =
           (if topic = MQTT_TOPIC_SETTINGS
            then apply_settings doc link_up (snd (getMACAddress m s))
            else snd (getMACAddress m s))"
  using assms by (simp add: callback_def split: prod.splits)

lemma callback_wm_addressed:
  assumes "deserializeJson message = Some doc"
    and "doc_deviceId doc = Some (fst (getMACAddress_wm m link_up s))"
  shows "callback_wm deserializeJson m link_up topic message s =
           (if topic = MQTT_TOPIC_SETTINGS
            then apply_settings_wm doc (snd (getMACAddress_wm m link_up s))
            else snd (getMACAddress_wm m link_up s))"
  using assms by (simp add: callback_wm_def split: prod.splits)

lemma callback_discard:
  assumes "deserializeJson message = None
         \<or> (\<exists>doc. deserializeJson message = Some doc \<and> doc_deviceId doc = None)
         \<or> (\<exists>doc t. deserializeJson message = Some doc \<and> doc_deviceId doc = Some t
                \<and> t \<noteq> fst (getMACAddress m s))"
  shows "callback deserializeJson m link_up topic message s = s
       \<or> callback deserializeJson m link_up topic message s = snd (getMACAddress m s)"
  using assms by (auto simp: callback_def split: prod.splits)

lemma callback_legacy_discard:
  assumes "deserializeJson message = None
         \<or> (\<exists>doc. deserializeJson message = Some doc \<and> doc_deviceId doc = None)
         \<or> (\<exists>doc t. deserializeJson message = Some doc \<and> doc_deviceId doc = Some t
                \<and> t \<noteq> fst (getMACAddress m s))"
  shows "callback_legacy deserializeJson m currentTemp topic message s = s
       \<or> callback_legacy deserializeJson m currentTemp topic message s = snd (getMACAddress m s)"
  using assms by (auto simp: callback_legacy_def split: prod.splits)

text \<open>
  Over a run: once the identity is cached no step reads the hardware address or touches
  the cache, and the last call to the WiFi driver, once it is a \<^verbatim>\<open>WiFi.begin\<close> with the
  stored credentials, stays one.
\<close>

lemma wifi_wait_mac_reads [simp]: "mac_reads (wifi_wait l st s) = mac_reads s"
proof -
  obtain se ms where e: "wifi_wait l st s = s\<lparr>serial := se, millis := ms\<rparr>"
    using wifi_wait_frame_ex by blast
  show ?thesis by (simp add: e)
qed

lemma mac_wait_mac_reads [simp]: "mac_reads (mac_wait l st s) = mac_reads s"
proof -
  obtain ms where e: "mac_wait l st s = s\<lparr>millis := ms\<rparr>"
    using mac_wait_frame_ex by blast
  show ?thesis by (simp add: e)
qed

lemma reconnectWiFi_mac_reads [simp]: "mac_reads (reconnectWiFi l s) = mac_reads s"
  by (simp add: reconnectWiFi_def Let_def serial_print_def wifi_do_def)

lemma apply_settings_mac_reads [simp]: "mac_reads (apply_settings doc l s) = mac_reads s"
  by (simp add: apply_settings_def Let_def serial_print_def split: option.splits)

lemma apply_settings_wm_mac_reads [simp]: "mac_reads (apply_settings_wm doc s) = mac_reads s"
  by (simp add: apply_settings_wm_def Let_def serial_print_def split: option.splits)

lemma updateRelayState_frame [simp]:
  "ssid (updateRelayState t s) = ssid s"
  "password (updateRelayState t s) = password s"
  "wifi (updateRelayState t s) = wifi s"
  "deviceId (updateRelayState t s) = deviceId s"
  "mac_reads (updateRelayState t s) = mac_reads s"
  by (simp_all add: updateRelayState_def digitalWrite_def Let_def)








lemma updateRelayState_legacy_threshold [simp]:
  "temperatureThreshold (updateRelayState_legacy t s) = temperatureThreshold s"
  by (simp add: updateRelayState_legacy_def digitalWrite_def)

lemma apply_settings_credentials:
  "(wifi (apply_settings doc l s) = wifi s \<and> ssid (apply_settings doc l s) = ssid s
      \<and> password (apply_settings doc l s) = password s)
   \<or> wifi (apply_settings doc l s) =
        wifi s @ [Disconnect, Begin (ssid (apply_settings doc l s)) (password (apply_settings doc l s))]"
proof (cases "wifiCredentialsUpdated doc s")
  case True
  then obtain s4 where s4: "apply_settings doc l s = reconnectWiFi l s4" and w4: "wifi s4 = wifi s"
    using apply_settings_swap [of doc s l] by auto
  have "wifi (apply_settings doc l s) =
        wifi s @ [Disconnect, Begin (ssid (apply_settings doc l s)) (password (apply_settings doc l s))]"
    by (simp add: s4 w4)
  then show ?thesis by simp
next
  case False
  then have "ssid (apply_settings doc l s) = ssid s" "password (apply_settings doc l s) = password s"
    by (auto simp: apply_settings_fields wifiCredentialsUpdated_def split: option.splits)
  with apply_settings_quiet(1) [OF False, of l] show ?thesis by simp
qed

lemma callback_credentials:
  "(wifi (callback dj m l topic message s) = wifi s \<and> ssid (callback dj m l topic message s) = ssid s
      \<and> password (callback dj m l topic message s) = password s)
   \<or> wifi (callback dj m l topic message s) =
        wifi s @ [Disconnect, Begin (ssid (callback dj m l topic message s))
                                    (password (callback dj m l topic message s))]"
  using apply_settings_credentials [of _ l "snd (getMACAddress m s)"]
  by (simp add: callback_def case_prod_beta split: option.splits)

lemma deployed_step_credentials:
  "(wifi (deployed_step dj l x s) = wifi s \<and> ssid (deployed_step dj l x s) = ssid s
      \<and> password (deployed_step dj l x s) = password s)
   \<or> wifi (deployed_step dj l x s) =
        wifi s @ [Disconnect, Begin (ssid (deployed_step dj l x s)) (password (deployed_step dj l x s))]"
proof (cases x)
  case (Service m topic message)
  then show ?thesis using callback_credentials [of dj m l topic message s] by simp
next
  case (Identify m)
  then show ?thesis by simp
next
  case (Relay t)
  then show ?thesis by simp
next
  case (Publish m t v c p)
  then show ?thesis
    by (simp add: publishSensorData_deployed_def case_prod_beta serial_print_def)
next
  case (Pause n)
  then show ?thesis by (simp add: delay_def)
qed

lemma run_last_begin:
  assumes "wifi s \<noteq> []" and "last (wifi s) = Begin (ssid s) (password s)"
  shows "wifi (run (deployed_step dj l) steps s) \<noteq> []
       \<and> last (wifi (run (deployed_step dj l) steps s)) =
           Begin (ssid (run (deployed_step dj l) steps s)) (password (run (deployed_step dj l) steps s))"
  using assms
proof (induction steps arbitrary: s)
  case Nil
  then show ?case by simp
next
  case (Cons x xs)
  have "wifi (deployed_step dj l x s) \<noteq> []
      \<and> last (wifi (deployed_step dj l x s)) =
          Begin (ssid (deployed_step dj l x s)) (password (deployed_step dj l x s))"
    using deployed_step_credentials [of dj l x s] Cons.prems by auto
  then show ?case using Cons.IH [of "deployed_step dj l x s"] by simp
qed

lemma callback_same_credentials:
  assumes "same_credentials dj (ssid s) (password s) (Service m topic message)"
  shows "wifi (callback dj m l topic message s) = wifi s
       \<and> ssid (callback dj m l topic message s) = ssid s
       \<and> password (callback dj m l topic message s) = password s"
proof (cases "dj message")
  case None
  then show ?thesis by (simp add: callback_def)
next
  case (Some doc)
  with assms have a: "doc_ssid doc = None \<or> doc_ssid doc = Some (ssid s)"
    and b: "doc_password doc = None \<or> doc_password doc = Some (password s)" by simp_all
  let ?s0 = "snd (getMACAddress m s)"
  from a b have q: "\<not> wifiCredentialsUpdated doc ?s0"
    by (auto simp: wifiCredentialsUpdated_def)
  have f: "ssid (apply_settings doc l ?s0) = ssid s" "password (apply_settings doc l ?s0) = password s"
    using a b by (auto simp: apply_settings_fields)
  from Some f apply_settings_quiet(1) [OF q, of l] show ?thesis
    by (simp add: callback_def case_prod_beta split: option.splits)
qed

lemma deployed_step_same_credentials:
  assumes "same_credentials dj (ssid s) (password s) x"
  shows "wifi (deployed_step dj l x s) = wifi s \<and> ssid (deployed_step dj l x s) = ssid s
       \<and> password (deployed_step dj l x s) = password s"
proof (cases x)
  case (Service m topic message)
  with assms show ?thesis using callback_same_credentials [of dj s m topic message l] by simp
next
  case (Identify m)
  then show ?thesis by simp
next
  case (Relay t)
  then show ?thesis by simp
next
  case (Publish m t v c p)
  then show ?thesis
    by (simp add: publishSensorData_deployed_def case_prod_beta serial_print_def)
next
  case (Pause n)
  then show ?thesis by (simp add: delay_def)
qed

lemma run_same_credentials:
  assumes "\<forall>x\<in>set steps. same_credentials dj (ssid s) (password s) x"
  shows "wifi (run (deployed_step dj l) steps s) = wifi s
       \<and> ssid (run (deployed_step dj l) steps s) = ssid s
       \<and> password (run (deployed_step dj l) steps s) = password s"
  using assms
proof (induction steps arbitrary: s)
  case Nil
  show ?case by simp
next
  case (Cons x xs)
  from Cons.prems have x: "same_credentials dj (ssid s) (password s) x" by simp
  note f = deployed_step_same_credentials [OF x, of l]
  from Cons.prems f have "\<forall>y\<in>set xs. same_credentials dj (ssid (deployed_step dj l x s))
      (password (deployed_step dj l x s)) y" by simp
  from Cons.IH [OF this] f show ?case by simp
qed

lemma callback_hot_swap_timeout:
  assumes parse: "deserializeJson message = Some doc"
    and addressed: "doc_deviceId doc = Some (fst (getMACAddress m s))"
    and changed: "(\<exists>n. doc_ssid doc = Some n \<and> n \<noteq> ssid s)
                \<or> (\<exists>p. doc_password doc = Some p \<and> p \<noteq> password s)"
    and down: "\<forall>k\<le>20. \<not> link_up (millis s + 500 * of_nat k)"
  shows "ssid (callback deserializeJson m link_up MQTT_TOPIC_SETTINGS message s) =
           (case doc_ssid doc of None \<Rightarrow> ssid s
            | Some n \<Rightarrow> if n \<noteq> ssid s then strlcpy n 32 else ssid s)"
    and "password (callback deserializeJson m link_up MQTT_TOPIC_SETTINGS message s) =
           (case doc_password doc of None \<Rightarrow> password s
            | Some p \<Rightarrow> if p \<noteq> password s then strlcpy p 32 else password s)"
    and "wifi (callback deserializeJson m link_up MQTT_TOPIC_SETTINGS message s) =
           wifi s @ [Disconnect,
             Begin (ssid (callback deserializeJson m link_up MQTT_TOPIC_SETTINGS message s))
                   (password (callback deserializeJson m link_up MQTT_TOPIC_SETTINGS message s))]"
    and "millis (callback deserializeJson m link_up MQTT_TOPIC_SETTINGS message s) = millis s + 10000"
    and "\<not> link_up (millis (callback deserializeJson m link_up MQTT_TOPIC_SETTINGS message s))"
    and "last (serial (callback deserializeJson m link_up MQTT_TOPIC_SETTINGS message s)) = WiFiFailed"
proof -
  let ?s0 = "snd (getMACAddress m s)"
  have cb: "callback deserializeJson m link_up MQTT_TOPIC_SETTINGS message s =
      apply_settings doc link_up ?s0"
    using parse addressed by (simp add: callback_addressed)
  from changed have "wifiCredentialsUpdated doc ?s0"
    by (auto simp: wifiCredentialsUpdated_def)
  then obtain s4 where s4: "apply_settings doc link_up ?s0 = reconnectWiFi link_up s4"
    and m4: "millis s4 = millis s" and w4: "wifi s4 = wifi s"
    using apply_settings_swap [of doc ?s0 link_up] by auto
  from down m4 have down4: "\<forall>k\<le>20. \<not> link_up (millis s4 + 500 * of_nat k)" by simp
  show "ssid (callback deserializeJson m link_up MQTT_TOPIC_SETTINGS message s) =
           (case doc_ssid doc of None \<Rightarrow> ssid s
            | Some n \<Rightarrow> if n \<noteq> ssid s then strlcpy n 32 else ssid s)"
    unfolding cb by (simp add: apply_settings_fields split: option.splits)
  show "password (callback deserializeJson m link_up MQTT_TOPIC_SETTINGS message s) =
           (case doc_password doc of None \<Rightarrow> password s
            | Some p \<Rightarrow> if p \<noteq> password s then strlcpy p 32 else password s)"
    unfolding cb by (simp add: apply_settings_fields split: option.splits)
  show "wifi (callback deserializeJson m link_up MQTT_TOPIC_SETTINGS message s) =
           wifi s @ [Disconnect,
             Begin (ssid (callback deserializeJson m link_up MQTT_TOPIC_SETTINGS message s))
                   (password (callback deserializeJson m link_up MQTT_TOPIC_SETTINGS message s))]"
    unfolding cb by (simp add: s4 w4)
  show e4: "millis (callback deserializeJson m link_up MQTT_TOPIC_SETTINGS message s) = millis s + 10000"
    unfolding cb using reconnectWiFi_timeout(1) [OF down4] by (simp add: s4 m4)
  have "\<not> link_up (millis s + 500 * of_nat (20::nat))" using down by blast
  then show "\<not> link_up (millis (callback deserializeJson m link_up MQTT_TOPIC_SETTINGS message s))"
    by (simp add: e4)
  show "last (serial (callback deserializeJson m link_up MQTT_TOPIC_SETTINGS message s)) = WiFiFailed"
    unfolding cb using reconnectWiFi_timeout(2) [OF down4] by (simp add: s4)
qed

section \<open>Properties\<close>

subsection \<open>Sanitizer\<close>

text \<open>
  Claim C9. \<open>safeValue\<close> returns zero for not-a-number and returns every other float, the
  finite ones and also the two infinities, as it is. It is a function of its argument
  alone: it neither reads nor returns the device state.
\<close>

theorem safeValue_nan_or_unchanged:
  "safeValue NaN = Num 0 \<and> safeValue (Num r) = Num r
   \<and> safeValue PInf = PInf \<and> safeValue NInf = NInf"
  by (simp add: safeValue_def)

subsection \<open>Relay state machine\<close>

text \<open>
  Claim C1, as amended. In the sketches that have \<^verbatim>\<open>reverseRelay\<close>, after
  \<open>updateRelayState\<close> the relay is on exactly when the temperature is below the threshold
  (reversed) or at or above it (not reversed); so at a temperature equal to the
  threshold, not reversed, it is on. The first MQTT sketch has no polarity: whenever
  temperature and threshold compare, its relay is on exactly when the temperature is
  below the threshold, hence off at equality; when one of them is not-a-number it stays
  as it was.
\<close>

theorem relay_desired_state:
  "relayState (updateRelayState t s) =
      (if reverseRelay s then float_lt t (temperatureThreshold s)
       else float_ge t (temperatureThreshold s))
   \<and> (\<not> reverseRelay s \<and> float_eq t (temperatureThreshold s) \<longrightarrow>
        relayState (updateRelayState t s))
   \<and> (\<not> isnan t \<and> \<not> isnan (temperatureThreshold s) \<longrightarrow>
        relayState (updateRelayState_legacy t s) = float_lt t (temperatureThreshold s))
   \<and> (isnan t \<or> isnan (temperatureThreshold s) \<longrightarrow> updateRelayState_legacy t s = s)"
proof (intro conjI impI)
  show "relayState (updateRelayState t s) =
      (if reverseRelay s then float_lt t (temperatureThreshold s)
       else float_ge t (temperatureThreshold s))"
    by (simp add: relayState_updateRelayState shouldRelayBeOn_def)
next
  assume "\<not> reverseRelay s \<and> float_eq t (temperatureThreshold s)"
  then show "relayState (updateRelayState t s)"
    by (simp add: relayState_updateRelayState shouldRelayBeOn_def float_ge_of_eq)
next
  assume "\<not> isnan t \<and> \<not> isnan (temperatureThreshold s)"
  then show "relayState (updateRelayState_legacy t s) = float_lt t (temperatureThreshold s)"
    by (auto simp: updateRelayState_legacy_def digitalWrite_def float_ge_iff_not_lt)
next
  assume "isnan t \<or> isnan (temperatureThreshold s)"
  then have "\<not> float_ge t (temperatureThreshold s) \<and> \<not> float_lt t (temperatureThreshold s)"
    by (cases t; cases "temperatureThreshold s") (auto simp: float_ge_def)
  then show "updateRelayState_legacy t s = s"
    by (simp add: updateRelayState_legacy_def)
qed

text \<open>
  At 25 degrees with the threshold at 25: the relay of the deployed sketch goes on, the
  relay of the first MQTT sketch, on before, ends off.
\<close>

theorem relay_desired_state_witness:
  "relayState (updateRelayState (Num 25) boot)
   \<and> \<not> relayState (updateRelayState_legacy (Num 25) (boot\<lparr>relayState := True\<rparr>))
   \<and> updateRelayState_legacy NaN (boot\<lparr>relayState := True\<rparr>) = boot\<lparr>relayState := True\<rparr>"
  using relay_desired_state [of "Num 25" boot]
    relay_desired_state [of "Num 25" "boot\<lparr>relayState := True\<rparr>"]
    relay_desired_state [of NaN "boot\<lparr>relayState := True\<rparr>"]
  by (simp add: boot_def float_ge_def)

text \<open>
  The claim as it stands fails on \<^verbatim>\<open>updateRelayState\<close> of the first MQTT sketch: with the
  relay on and the temperature equal to the threshold, it writes \<open>LOW\<close> to both pins and
  the relay is off.
\<close>

theorem legacy_relay_off_at_threshold:
  "float_eq (Num 25) (temperatureThreshold boot)
   \<and> updateRelayState_legacy (Num 25) (boot\<lparr>relayState := True\<rparr>) =
       boot\<lparr>relayState := False, pins := [(RELAY_PIN, LOW), (LED_PIN, LOW)]\<rparr>"
  by (simp add: updateRelayState_legacy_def boot_def digitalWrite_def float_ge_def)

text \<open>
  Claim C3, as amended. A second \<open>updateRelayState\<close> at the same temperature and
  configuration changes nothing: no pin is written, nothing is printed. The first one
  writes the relay pin and the indicator pin, once each and with the same level, when the
  desired state differs from \<open>relayState\<close>, and writes nothing otherwise. So two
  applications write the outputs at most once, and once exactly when the first finds
  \<open>relayState\<close> different from the desired state.
\<close>

theorem relay_update_idempotent:
  "updateRelayState t (updateRelayState t s) = updateRelayState t s
   \<and> pins (updateRelayState t s) =
       pins s @ (if shouldRelayBeOn s t \<noteq> relayState s
                 then [(RELAY_PIN, level_of (shouldRelayBeOn s t)),
                       (LED_PIN, level_of (shouldRelayBeOn s t))]
                 else [])"
proof
  have "shouldRelayBeOn (updateRelayState t s) t = relayState (updateRelayState t s)"
    by (simp add: shouldRelayBeOn_updateRelayState relayState_updateRelayState)
  then show "updateRelayState t (updateRelayState t s) = updateRelayState t s"
    by (simp add: updateRelayState_def [of t "updateRelayState t s"])
next
  show "pins (updateRelayState t s) =
       pins s @ (if shouldRelayBeOn s t \<noteq> relayState s
                 then [(RELAY_PIN, level_of (shouldRelayBeOn s t)),
                       (LED_PIN, level_of (shouldRelayBeOn s t))]
                 else [])"
    by (rule pins_updateRelayState)
qed

text \<open>
  The claim as it stands asks for exactly one write on every state. From the state after
  boot (relay off) at 24 degrees, threshold 25, two applications write nothing at all.
\<close>

theorem relay_settled_no_write:
  "shouldRelayBeOn boot (Num 24) = relayState boot
   \<and> pins (updateRelayState (Num 24) (updateRelayState (Num 24) boot)) = []"
  by (simp add: updateRelayState_def shouldRelayBeOn_def boot_def float_ge_def)

subsection \<open>Device identity\<close>




subsection \<open>Inbound configuration\<close>

text \<open>
  Claim C4. When the payload does not parse, or the document has no \<^verbatim>\<open>deviceId\<close>
  string, or that string is not the identity of the unit, the callback of the deployed
  sketch and the callback of the first MQTT sketch leave threshold, polarity, SSID and
  password as they were, call nothing of the WiFi driver, print nothing, take no time and
  leave the relay alone. (All the callback may do is fill the identity cache, reading
  the hardware address for it.)
\<close>

theorem unaddressed_message_discarded:
  assumes "deserializeJson message = None
         \<or> (\<exists>doc. deserializeJson message = Some doc \<and> doc_deviceId doc = None)
         \<or> (\<exists>doc t. deserializeJson message = Some doc \<and> doc_deviceId doc = Some t
                \<and> t \<noteq> fst (getMACAddress m s))"
  shows "(let s' = callback deserializeJson m link_up topic message s in
            temperatureThreshold s' = temperatureThreshold s \<and> reverseRelay s' = reverseRelay s
          \<and> ssid s' = ssid s \<and> password s' = password s
          \<and> wifi s' = wifi s \<and> serial s' = serial s \<and> millis s' = millis s
          \<and> relayState s' = relayState s \<and> pins s' = pins s)
       \<and> (let s' = callback_legacy deserializeJson m currentTemp topic message s in
            temperatureThreshold s' = temperatureThreshold s \<and> reverseRelay s' = reverseRelay s
          \<and> ssid s' = ssid s \<and> password s' = password s
          \<and> wifi s' = wifi s \<and> serial s' = serial s \<and> millis s' = millis s
          \<and> relayState s' = relayState s \<and> pins s' = pins s)"
proof -
  have d: "callback deserializeJson m link_up topic message s = s
       \<or> callback deserializeJson m link_up topic message s = snd (getMACAddress m s)"
    using assms by (rule callback_discard [of deserializeJson message m s])
  from d have a: "let s' = callback deserializeJson m link_up topic message s in
            temperatureThreshold s' = temperatureThreshold s \<and> reverseRelay s' = reverseRelay s
          \<and> ssid s' = ssid s \<and> password s' = password s
          \<and> wifi s' = wifi s \<and> serial s' = serial s \<and> millis s' = millis s
          \<and> relayState s' = relayState s \<and> pins s' = pins s"
    unfolding Let_def by (elim disjE) simp_all
  have e: "callback_legacy deserializeJson m currentTemp topic message s = s
       \<or> callback_legacy deserializeJson m currentTemp topic message s = snd (getMACAddress m s)"
    using assms by (rule callback_legacy_discard [of deserializeJson message m s])
  from e have b: "let s' = callback_legacy deserializeJson m currentTemp topic message s in
            temperatureThreshold s' = temperatureThreshold s \<and> reverseRelay s' = reverseRelay s
          \<and> ssid s' = ssid s \<and> password s' = password s
          \<and> wifi s' = wifi s \<and> serial s' = serial s \<and> millis s' = millis s
          \<and> relayState s' = relayState s \<and> pins s' = pins s"
    unfolding Let_def by (elim disjE) simp_all
  from a b show ?thesis by simp
qed

text \<open>
  Scenario 4 of the specification, second half: the message for \<^verbatim>\<open>11:22:33:44:55:66\<close>,
  with a threshold of 30 and a new SSID, leaves the unit \<^verbatim>\<open>AA:BB:CC:DD:EE:FF\<close> untouched.
\<close>

theorem unaddressed_message_discarded_witness:
  "temperatureThreshold
     (callback (reads_as ''11:22:33:44:55:66'' (Some (Num 30)) (Some ''Elsewhere'') None)
        unit_mac always_up MQTT_TOPIC_SETTINGS [] boot) = Num 25
   \<and> ssid
     (callback (reads_as ''11:22:33:44:55:66'' (Some (Num 30)) (Some ''Elsewhere'') None)
        unit_mac always_up MQTT_TOPIC_SETTINGS [] boot) = ''HANJEE FIBER - SAAD''
   \<and> wifi
     (callback (reads_as ''11:22:33:44:55:66'' (Some (Num 30)) (Some ''Elsewhere'') None)
        unit_mac always_up MQTT_TOPIC_SETTINGS [] boot) = []
   \<and> serial
     (callback (reads_as ''11:22:33:44:55:66'' (Some (Num 30)) (Some ''Elsewhere'') None)
        unit_mac always_up MQTT_TOPIC_SETTINGS [] boot) = []"
  using unaddressed_message_discarded
    [of "reads_as ''11:22:33:44:55:66'' (Some (Num 30)) (Some ''Elsewhere'') None" "[]"
        unit_mac boot always_up MQTT_TOPIC_SETTINGS "Num 20"]
  by (simp add: macAddress_def reads_as_def getMACAddress_def boot_def unit_mac_id Let_def)

text \<open>
  Claim C2, as amended. In each of the three MQTT sketches an addressed message that
  carries a threshold (on the settings topic, where the callback looks at the topic)
  overwrites \<open>temperatureThreshold\<close> with the carried value, whatever its sign, and a
  message without the field leaves it as it was. Only \<open>fetchThresholdValue\<close> of the HTTP
  sketch validates: the fetched value is stored when the link is up, the response code is
  positive and the value is greater than zero, and the threshold is kept otherwise.
\<close>

theorem threshold_overwrite:
  "(deserializeJson message = Some doc
      \<and> doc_deviceId doc = Some (fst (getMACAddress_wm m link_up s))
      \<and> doc_threshold doc = Some v \<longrightarrow>
      temperatureThreshold (callback_wm deserializeJson m link_up MQTT_TOPIC_SETTINGS message s) = v)
   \<and> (deserializeJson message = Some doc \<and> doc_threshold doc = None \<longrightarrow>
      temperatureThreshold (callback_wm deserializeJson m link_up topic message s) =
        temperatureThreshold s)
   \<and> (deserializeJson message = Some doc
      \<and> doc_deviceId doc = Some (fst (getMACAddress m s))
      \<and> doc_threshold doc = Some v \<longrightarrow>
      temperatureThreshold (callback deserializeJson m link_up MQTT_TOPIC_SETTINGS message s) = v)
   \<and> (deserializeJson message = Some doc \<and> doc_threshold doc = None \<longrightarrow>
      temperatureThreshold (callback deserializeJson m link_up topic message s) =
        temperatureThreshold s)
   \<and> (deserializeJson message = Some doc
      \<and> doc_deviceId doc = Some (fst (getMACAddress m s))
      \<and> doc_threshold doc = Some v \<longrightarrow>
      temperatureThreshold (callback_legacy deserializeJson m currentTemp topic message s) = v)
   \<and> (deserializeJson message = Some doc \<and> doc_threshold doc = None \<longrightarrow>
      temperatureThreshold (callback_legacy deserializeJson m currentTemp topic message s) =
        temperatureThreshold s)
   \<and> temperatureThreshold (fetchThresholdValue toFloat wifi_connected httpResponseCode response s) =
      (if wifi_connected \<and> 0 < httpResponseCode \<and> float_gt (toFloat response) (Num 0)
       then toFloat response else temperatureThreshold s)"
proof (intro conjI impI)
  assume "deserializeJson message = Some doc
      \<and> doc_deviceId doc = Some (fst (getMACAddress_wm m link_up s))
      \<and> doc_threshold doc = Some v"
  then show "temperatureThreshold
      (callback_wm deserializeJson m link_up MQTT_TOPIC_SETTINGS message s) = v"
    by (simp add: callback_wm_addressed apply_settings_wm_fields)
next
  assume "deserializeJson message = Some doc \<and> doc_threshold doc = None"
  then show "temperatureThreshold (callback_wm deserializeJson m link_up topic message s) =
      temperatureThreshold s"
    by (simp add: callback_wm_def case_prod_beta apply_settings_wm_fields split: option.splits)
next
  assume "deserializeJson message = Some doc
      \<and> doc_deviceId doc = Some (fst (getMACAddress m s))
      \<and> doc_threshold doc = Some v"
  then show "temperatureThreshold
      (callback deserializeJson m link_up MQTT_TOPIC_SETTINGS message s) = v"
    by (simp add: callback_addressed apply_settings_fields)
next
  assume "deserializeJson message = Some doc \<and> doc_threshold doc = None"
  then show "temperatureThreshold (callback deserializeJson m link_up topic message s) =
      temperatureThreshold s"
    by (simp add: callback_def case_prod_beta apply_settings_fields split: option.splits)
next
  assume "deserializeJson message = Some doc
      \<and> doc_deviceId doc = Some (fst (getMACAddress m s))
      \<and> doc_threshold doc = Some v"
  then show "temperatureThreshold
      (callback_legacy deserializeJson m currentTemp topic message s) = v"
    by (simp add: callback_legacy_def case_prod_beta serial_print_def)
next
  assume "deserializeJson message = Some doc \<and> doc_threshold doc = None"
  then show "temperatureThreshold (callback_legacy deserializeJson m currentTemp topic message s) =
      temperatureThreshold s"
    by (simp add: callback_legacy_def case_prod_beta split: option.splits)
next
  show "temperatureThreshold (fetchThresholdValue toFloat wifi_connected httpResponseCode response s) =
      (if wifi_connected \<and> 0 < httpResponseCode \<and> float_gt (toFloat response) (Num 0)
       then toFloat response else temperatureThreshold s)"
    by (simp add: fetchThresholdValue_def serial_print_def Let_def)
qed

text \<open>
  Scenario 4 of the specification, first half, on each callback: thresholds of 30, of
  minus five and of zero addressed to the unit are stored; the same message without the
  field leaves 25.
\<close>

theorem threshold_overwrite_witness:
  "temperatureThreshold
     (callback_wm (reads_as ''AA:BB:CC:DD:EE:FF'' (Some (Num 30)) None None) unit_mac always_up
        MQTT_TOPIC_SETTINGS [] boot) = Num 30
   \<and> temperatureThreshold
     (callback (reads_as ''AA:BB:CC:DD:EE:FF'' (Some (Num (- 5))) None None) unit_mac always_up
        MQTT_TOPIC_SETTINGS [] boot) = Num (- 5)
   \<and> temperatureThreshold
     (callback_legacy (reads_as ''AA:BB:CC:DD:EE:FF'' (Some (Num 0)) None None) unit_mac (Num 26)
        ''device/threshold'' [] boot) = Num 0
   \<and> temperatureThreshold
     (callback_wm (reads_as ''AA:BB:CC:DD:EE:FF'' None None None) unit_mac always_up
        MQTT_TOPIC_SETTINGS [] boot) = Num 25
   \<and> temperatureThreshold
     (callback (reads_as ''AA:BB:CC:DD:EE:FF'' None None None) unit_mac always_up
        MQTT_TOPIC_SETTINGS [] boot) = Num 25
   \<and> temperatureThreshold
     (callback_legacy (reads_as ''AA:BB:CC:DD:EE:FF'' None None None) unit_mac (Num 26)
        ''device/threshold'' [] boot) = Num 25"
  using threshold_overwrite
      [of "reads_as ''AA:BB:CC:DD:EE:FF'' (Some (Num 30)) None None" "[]"
          "\<lparr> doc_deviceId = Some ''AA:BB:CC:DD:EE:FF'', doc_threshold = Some (Num 30),
             doc_reverseRelay = None, doc_ssid = None, doc_password = None \<rparr>"
          unit_mac always_up boot "Num 30"]
    threshold_overwrite
      [of "reads_as ''AA:BB:CC:DD:EE:FF'' (Some (Num (- 5))) None None" "[]"
          "\<lparr> doc_deviceId = Some ''AA:BB:CC:DD:EE:FF'', doc_threshold = Some (Num (- 5)),
             doc_reverseRelay = None, doc_ssid = None, doc_password = None \<rparr>"
          unit_mac always_up boot "Num (- 5)"]
    threshold_overwrite
      [of "reads_as ''AA:BB:CC:DD:EE:FF'' (Some (Num 0)) None None" "[]"
          "\<lparr> doc_deviceId = Some ''AA:BB:CC:DD:EE:FF'', doc_threshold = Some (Num 0),
             doc_reverseRelay = None, doc_ssid = None, doc_password = None \<rparr>"
          unit_mac always_up boot "Num 0" "''device/threshold''" "Num 26"]
    threshold_overwrite
      [of "reads_as ''AA:BB:CC:DD:EE:FF'' None None None" "[]"
          "\<lparr> doc_deviceId = Some ''AA:BB:CC:DD:EE:FF'', doc_threshold = None,
             doc_reverseRelay = None, doc_ssid = None, doc_password = None \<rparr>"
          unit_mac always_up boot _ MQTT_TOPIC_SETTINGS "Num 26"]
    threshold_overwrite
      [of "reads_as ''AA:BB:CC:DD:EE:FF'' None None None" "[]"
          "\<lparr> doc_deviceId = Some ''AA:BB:CC:DD:EE:FF'', doc_threshold = None,
             doc_reverseRelay = None, doc_ssid = None, doc_password = None \<rparr>"
          unit_mac always_up boot _ "''device/threshold''" "Num 26"]
  by (simp add: macAddress_def reads_as_def getMACAddress_wm_def getMACAddress_def boot_def
      unit_mac_id always_up_def Let_def)

text \<open>
  The claim as it stands fails on the callback of the WiFiManager sketch: an addressed
  message with a threshold of minus five, which is not positive, replaces the threshold
  of 25.
\<close>

theorem negative_threshold_stored:
  "\<not> float_gt (Num (- 5)) (Num 0)
   \<and> temperatureThreshold boot = Num 25
   \<and> temperatureThreshold
     (callback_wm (reads_as ''AA:BB:CC:DD:EE:FF'' (Some (Num (- 5))) None None) unit_mac
        always_up MQTT_TOPIC_SETTINGS [] boot) = Num (- 5)"
  by (simp add: macAddress_def callback_wm_def reads_as_def getMACAddress_wm_def boot_def
      unit_mac_id Let_def apply_settings_wm_def serial_print_def float_gt_def always_up_def)




subsection \<open>Credential hot swap\<close>

text \<open>
  Claim C6, as amended. Let an addressed settings message change the SSID or the
  password, and let the link be down at each of the twenty-one polls of the wait. Then
  the callback returns, ten seconds later on the clock, with the link down and the
  failure notice as the last line printed; the stored credentials are the received ones
  cut to the 31 characters of their buffers, not restored to the previous ones; and the
  last calls to the driver are \<^verbatim>\<open>WiFi.disconnect()\<close> and \<^verbatim>\<open>WiFi.begin\<close> with exactly the
  stored credentials. Afterwards, whatever steps the sketch runs, its last call to the
  driver is a \<^verbatim>\<open>WiFi.begin\<close> with the credentials it stores at that moment; and as long
  as no message brings other credentials, the stored ones stay and the sketch calls the
  driver no more: it makes no reconnect attempt of its own, the driver goes on with what
  that last \<^verbatim>\<open>WiFi.begin\<close> gave it. No step restarts or stops the unit: every step is a
  total function that yields the next state.
\<close>

theorem hot_swap_timeout_keeps_new_credentials:
  assumes parse: "deserializeJson message = Some doc"
    and addressed: "doc_deviceId doc = Some (fst (getMACAddress m s))"
    and changed: "(\<exists>n. doc_ssid doc = Some n \<and> n \<noteq> ssid s)
                \<or> (\<exists>p. doc_password doc = Some p \<and> p \<noteq> password s)"
    and down: "\<forall>k\<le>20. \<not> link_up (millis s + 500 * of_nat k)"
  shows "let s' = callback deserializeJson m link_up MQTT_TOPIC_SETTINGS message s in
      ssid s' = (case doc_ssid doc of None \<Rightarrow> ssid s
                 | Some n \<Rightarrow> if n \<noteq> ssid s then strlcpy n 32 else ssid s)
    \<and> password s' = (case doc_password doc of None \<Rightarrow> password s
                 | Some p \<Rightarrow> if p \<noteq> password s then strlcpy p 32 else password s)
    \<and> wifi s' = wifi s @ [Disconnect, Begin (ssid s') (password s')]
    \<and> millis s' = millis s + 10000
    \<and> \<not> link_up (millis s')
    \<and> last (serial s') = WiFiFailed
    \<and> (\<forall>steps. let s2 = run (deployed_step deserializeJson link_up) steps s' in
          last (wifi s2) = Begin (ssid s2) (password s2))
    \<and> (\<forall>steps. (\<forall>x\<in>set steps. same_credentials deserializeJson (ssid s') (password s') x) \<longrightarrow>
          (let s2 = run (deployed_step deserializeJson link_up) steps s' in
             ssid s2 = ssid s' \<and> password s2 = password s' \<and> wifi s2 = wifi s'))"
proof -
  let ?s' = "callback deserializeJson m link_up MQTT_TOPIC_SETTINGS message s"
  note h = callback_hot_swap_timeout [of deserializeJson message doc m s link_up,
      OF parse addressed changed down]
  from h(3) have ne: "wifi ?s' \<noteq> []" and lb: "last (wifi ?s') = Begin (ssid ?s') (password ?s')"
    by simp_all
  have inv: "last (wifi (run (deployed_step deserializeJson link_up) steps ?s')) =
      Begin (ssid (run (deployed_step deserializeJson link_up) steps ?s'))
            (password (run (deployed_step deserializeJson link_up) steps ?s'))" for steps
    using run_last_begin [OF ne lb, of deserializeJson link_up steps] by simp
  have quiet: "(\<forall>x\<in>set steps. same_credentials deserializeJson (ssid ?s') (password ?s') x) \<longrightarrow>
      ssid (run (deployed_step deserializeJson link_up) steps ?s') = ssid ?s'
      \<and> password (run (deployed_step deserializeJson link_up) steps ?s') = password ?s'
      \<and> wifi (run (deployed_step deserializeJson link_up) steps ?s') = wifi ?s'" for steps
    using run_same_credentials [of steps deserializeJson ?s' link_up] by blast
  from h inv quiet show ?thesis unfolding Let_def by blast
qed

text \<open>
  New credentials for a network that never answers: they stay stored, the driver was last
  started with them, and a pause, a request for the identity, the same message once more
  and a relay evaluation later the driver has not been called again.
\<close>

theorem hot_swap_timeout_keeps_new_credentials_witness:
  "ssid (callback (reads_as ''AA:BB:CC:DD:EE:FF'' None (Some ''Workshop'') (Some ''opensesame''))
           unit_mac never_up MQTT_TOPIC_SETTINGS [] boot) = ''Workshop''
   \<and> password (callback (reads_as ''AA:BB:CC:DD:EE:FF'' None (Some ''Workshop'') (Some ''opensesame''))
           unit_mac never_up MQTT_TOPIC_SETTINGS [] boot) = ''opensesame''
   \<and> wifi (callback (reads_as ''AA:BB:CC:DD:EE:FF'' None (Some ''Workshop'') (Some ''opensesame''))
           unit_mac never_up MQTT_TOPIC_SETTINGS [] boot)
       = [Disconnect, Begin ''Workshop'' ''opensesame'']
   \<and> millis (callback (reads_as ''AA:BB:CC:DD:EE:FF'' None (Some ''Workshop'') (Some ''opensesame''))
           unit_mac never_up MQTT_TOPIC_SETTINGS [] boot) = 10000
   \<and> wifi (run (deployed_step
                  (reads_as ''AA:BB:CC:DD:EE:FF'' None (Some ''Workshop'') (Some ''opensesame''))
                  never_up)
             [Pause 5000, Identify unit_mac, Service unit_mac MQTT_TOPIC_SETTINGS [], Relay (Num 26)]
             (callback (reads_as ''AA:BB:CC:DD:EE:FF'' None (Some ''Workshop'') (Some ''opensesame''))
                unit_mac never_up MQTT_TOPIC_SETTINGS [] boot))
       = [Disconnect, Begin ''Workshop'' ''opensesame'']"
proof -
  let ?dj = "reads_as ''AA:BB:CC:DD:EE:FF'' None (Some ''Workshop'') (Some ''opensesame'')"
  let ?doc = "\<lparr> doc_deviceId = Some ''AA:BB:CC:DD:EE:FF'', doc_threshold = None,
             doc_reverseRelay = None, doc_ssid = Some ''Workshop'',
             doc_password = Some ''opensesame'' \<rparr>"
  let ?steps = "[Pause 5000, Identify unit_mac, Service unit_mac MQTT_TOPIC_SETTINGS [], Relay (Num 26)]"
  let ?s' = "callback ?dj unit_mac never_up MQTT_TOPIC_SETTINGS [] boot"
  have p: "?dj [] = Some ?doc" by (simp add: reads_as_def)
  have a: "doc_deviceId ?doc = Some (fst (getMACAddress unit_mac boot))"
    by (simp add: getMACAddress_def macAddress_def boot_def unit_mac_id Let_def)
  have c: "(\<exists>n. doc_ssid ?doc = Some n \<and> n \<noteq> ssid boot)
         \<or> (\<exists>p. doc_password ?doc = Some p \<and> p \<noteq> password boot)"
    by (simp add: boot_def)
  have d: "\<forall>k\<le>20. \<not> never_up (millis boot + 500 * of_nat k)"
    by (simp add: never_up_def)
  note t = hot_swap_timeout_keeps_new_credentials [of ?dj "[]" ?doc unit_mac boot never_up,
      OF p a c d, unfolded Let_def]
  from t have f1: "ssid ?s' = ''Workshop''" and f2: "password ?s' = ''opensesame''"
    and f3: "wifi ?s' = wifi boot @ [Disconnect, Begin (ssid ?s') (password ?s')]"
    and f4: "millis ?s' = millis boot + 10000"
    and q: "\<forall>steps. (\<forall>x\<in>set steps. same_credentials ?dj (ssid ?s') (password ?s') x) \<longrightarrow>
             ssid (run (deployed_step ?dj never_up) steps ?s') = ssid ?s'
           \<and> password (run (deployed_step ?dj never_up) steps ?s') = password ?s'
           \<and> wifi (run (deployed_step ?dj never_up) steps ?s') = wifi ?s'"
    by (simp_all add: strlcpy_def boot_def)
  have "\<forall>x\<in>set ?steps. same_credentials ?dj (ssid ?s') (password ?s') x"
    by (simp add: f1 f2 reads_as_def)
  with q have "wifi (run (deployed_step ?dj never_up) ?steps ?s') = wifi ?s'" by blast
  with f1 f2 f3 f4 show ?thesis by (simp add: boot_def)
qed

text \<open>
  The claim as it stands, with the stored credentials equal to the received ones, fails
  for a received SSID of 36 characters on a link that never comes up: what is stored is
  its first 31 characters. When those 31 characters are what was stored before, the
  stored SSID after the failed hot swap is the previous one.
\<close>

theorem hot_swap_stores_cut_ssid:
  "ssid (callback (reads_as ''AA:BB:CC:DD:EE:FF'' None
                     (Some ''0123456789abcdefghijklmnopqrstuvwxyz'') None)
           unit_mac never_up MQTT_TOPIC_SETTINGS [] boot)
     = ''0123456789abcdefghijklmnopqrstu''
   \<and> ssid (callback (reads_as ''AA:BB:CC:DD:EE:FF'' None
                     (Some ''0123456789abcdefghijklmnopqrstuvwxyz'') None)
           unit_mac never_up MQTT_TOPIC_SETTINGS [] boot)
     \<noteq> ''0123456789abcdefghijklmnopqrstuvwxyz''
   \<and> last (serial (callback (reads_as ''AA:BB:CC:DD:EE:FF'' None
                     (Some ''0123456789abcdefghijklmnopqrstuvwxyz'') None)
           unit_mac never_up MQTT_TOPIC_SETTINGS [] boot)) = WiFiFailed
   \<and> ssid (callback (reads_as ''AA:BB:CC:DD:EE:FF'' None
                     (Some ''0123456789abcdefghijklmnopqrstuvwxyz'') None)
           unit_mac never_up MQTT_TOPIC_SETTINGS []
           (boot\<lparr>ssid := ''0123456789abcdefghijklmnopqrstu''\<rparr>))
     = ssid (boot\<lparr>ssid := ''0123456789abcdefghijklmnopqrstu''\<rparr>)"
proof -
  let ?dj = "reads_as ''AA:BB:CC:DD:EE:FF'' None (Some ''0123456789abcdefghijklmnopqrstuvwxyz'') None"
  let ?doc = "\<lparr> doc_deviceId = Some ''AA:BB:CC:DD:EE:FF'', doc_threshold = None,
             doc_reverseRelay = None, doc_ssid = Some ''0123456789abcdefghijklmnopqrstuvwxyz'',
             doc_password = None \<rparr>"
  let ?b = "boot\<lparr>ssid := ''0123456789abcdefghijklmnopqrstu''\<rparr>"
  have p: "?dj [] = Some ?doc" by (simp add: reads_as_def)
  have a: "doc_deviceId ?doc = Some (fst (getMACAddress unit_mac boot))"
    by (simp add: getMACAddress_def macAddress_def boot_def unit_mac_id Let_def)
  have a': "doc_deviceId ?doc = Some (fst (getMACAddress unit_mac ?b))"
    by (simp add: getMACAddress_def macAddress_def boot_def unit_mac_id Let_def)
  have c: "(\<exists>n. doc_ssid ?doc = Some n \<and> n \<noteq> ssid boot)
         \<or> (\<exists>p. doc_password ?doc = Some p \<and> p \<noteq> password boot)"
    by (simp add: boot_def)
  have c': "(\<exists>n. doc_ssid ?doc = Some n \<and> n \<noteq> ssid ?b)
         \<or> (\<exists>p. doc_password ?doc = Some p \<and> p \<noteq> password ?b)"
    by simp
  have d: "\<forall>k\<le>20. \<not> never_up (millis boot + 500 * of_nat k)"
    by (simp add: never_up_def)
  have d': "\<forall>k\<le>20. \<not> never_up (millis ?b + 500 * of_nat k)"
    by (simp add: never_up_def)
  from callback_hot_swap_timeout(1) [of ?dj "[]" ?doc unit_mac boot never_up, OF p a c d]
    callback_hot_swap_timeout(6) [of ?dj "[]" ?doc unit_mac boot never_up, OF p a c d]
    callback_hot_swap_timeout(1) [of ?dj "[]" ?doc unit_mac ?b never_up, OF p a' c' d']
  show ?thesis by (simp add: strlcpy_def boot_def)
qed

text \<open>
  Claim C7. An addressed message whose SSID is the stored one, and whose password is
  absent or the stored one, makes the callback call nothing of the WiFi driver (neither
  \<^verbatim>\<open>WiFi.disconnect()\<close> nor \<^verbatim>\<open>WiFi.begin\<close>), wait for nothing, and leave the stored
  credentials as they were.
\<close>

theorem same_credentials_no_reconnect:
  assumes parse: "deserializeJson message = Some doc"
    and addressed: "doc_deviceId doc = Some (fst (getMACAddress m s))"
    and same_ssid: "doc_ssid doc = Some (ssid s)"
    and same_password: "doc_password doc = None \<or> doc_password doc = Some (password s)"
  shows "let s' = callback deserializeJson m link_up topic message s in
      wifi s' = wifi s \<and> ssid s' = ssid s \<and> password s' = password s \<and> millis s' = millis s"
proof -
  let ?s0 = "snd (getMACAddress m s)"
  from same_ssid same_password have q: "\<not> wifiCredentialsUpdated doc ?s0"
    by (auto simp: wifiCredentialsUpdated_def)
  have f: "ssid (apply_settings doc link_up ?s0) = ssid s"
    "password (apply_settings doc link_up ?s0) = password s"
    using same_ssid same_password by (auto simp: apply_settings_fields)
  show ?thesis
    using parse addressed f apply_settings_quiet [OF q, of link_up]
    by (simp add: callback_addressed Let_def)
qed

text \<open>The stored SSID sent again, with a new threshold, on a link that is down.\<close>

theorem same_credentials_no_reconnect_witness:
  "wifi (callback (reads_as ''AA:BB:CC:DD:EE:FF'' (Some (Num 30)) (Some ''HANJEE FIBER - SAAD'') None)
           unit_mac never_up MQTT_TOPIC_SETTINGS [] boot) = []
   \<and> millis (callback (reads_as ''AA:BB:CC:DD:EE:FF'' (Some (Num 30)) (Some ''HANJEE FIBER - SAAD'') None)
           unit_mac never_up MQTT_TOPIC_SETTINGS [] boot) = 0
   \<and> ssid (callback (reads_as ''AA:BB:CC:DD:EE:FF'' (Some (Num 30)) (Some ''HANJEE FIBER - SAAD'') None)
           unit_mac never_up MQTT_TOPIC_SETTINGS [] boot) = ''HANJEE FIBER - SAAD''"
  using same_credentials_no_reconnect
      [of "reads_as ''AA:BB:CC:DD:EE:FF'' (Some (Num 30)) (Some ''HANJEE FIBER - SAAD'') None" "[]"
          "\<lparr> doc_deviceId = Some ''AA:BB:CC:DD:EE:FF'', doc_threshold = Some (Num 30),
             doc_reverseRelay = None, doc_ssid = Some ''HANJEE FIBER - SAAD'',
             doc_password = None \<rparr>"
          unit_mac boot never_up MQTT_TOPIC_SETTINGS]
  by (simp add: macAddress_def reads_as_def getMACAddress_def boot_def unit_mac_id Let_def)

text \<open>
  Claim C10. The credential buffers hold 31 characters and the terminator. For an
  addressed settings message, an SSID or a password longer than 31 characters is stored
  as its first 31 characters, and after the callback both stored strings fit their
  buffers. The callback returns no error: the truncation shows only in what is stored
  (and in the line that prints the new SSID).
\<close>

theorem long_credential_truncated:
  assumes parse: "deserializeJson message = Some doc"
    and addressed: "doc_deviceId doc = Some (fst (getMACAddress m s))"
    and buffers: "length (ssid s) \<le> 31" "length (password s) \<le> 31"
  shows "let s' = callback deserializeJson m link_up MQTT_TOPIC_SETTINGS message s in
      (\<forall>n. doc_ssid doc = Some n \<and> 31 < length n \<longrightarrow> ssid s' = take 31 n)
    \<and> (\<forall>p. doc_password doc = Some p \<and> 31 < length p \<longrightarrow> password s' = take 31 p)
    \<and> length (ssid s') \<le> 31 \<and> length (password s') \<le> 31"
  using parse addressed buffers
  by (auto simp: callback_addressed Let_def apply_settings_fields strlcpy_def
      split: option.splits)

text \<open>An SSID of 36 characters is stored as its first 31.\<close>

theorem long_credential_truncated_witness:
  "ssid (callback (reads_as ''AA:BB:CC:DD:EE:FF'' None
                     (Some ''0123456789abcdefghijklmnopqrstuvwxyz'') None)
           unit_mac always_up MQTT_TOPIC_SETTINGS [] boot)
     = ''0123456789abcdefghijklmnopqrstu''
   \<and> length (password (callback (reads_as ''AA:BB:CC:DD:EE:FF'' None
                     (Some ''0123456789abcdefghijklmnopqrstuvwxyz'') None)
           unit_mac always_up MQTT_TOPIC_SETTINGS [] boot)) \<le> 31"
  using long_credential_truncated
      [of "reads_as ''AA:BB:CC:DD:EE:FF'' None (Some ''0123456789abcdefghijklmnopqrstuvwxyz'') None"
          "[]"
          "\<lparr> doc_deviceId = Some ''AA:BB:CC:DD:EE:FF'', doc_threshold = None,
             doc_reverseRelay = None, doc_ssid = Some ''0123456789abcdefghijklmnopqrstuvwxyz'',
             doc_password = None \<rparr>"
          unit_mac boot always_up]
  by (simp add: macAddress_def reads_as_def getMACAddress_def boot_def unit_mac_id Let_def)

end
